theory Spec2Isabelle
  imports Main "HOL-Library.Word"
begin

unbundle bit_operations_syntax

section \<open>The VM profiler of \<^verbatim>\<open>lj_vmprofile.c\<close>\<close>

text \<open>
  The file keeps one static pointer \<^verbatim>\<open>profile\<close> to the counters that are being
  filled, installs a \<^verbatim>\<open>SIGPROF\<close> handler that bumps counters through that pointer,
  and offers a handful of calls to open, select, start and stop. The model follows the
  file function by function. Memory is a partial map from addresses to counter
  structures; an access the C code makes outside mapped memory or outside an array is
  a \<open>fault\<close>, so that every run of a function either yields a new state or a fault.
\<close>

subsection \<open>Constants of the headers\<close>

text \<open>
  The enum of VM states, the bound \<^verbatim>\<open>LJ_VMPROFILE_TRACE_MAX\<close> and the size of
  \<^verbatim>\<open>VMProfile\<close> come from \<^verbatim>\<open>lj_obj.h\<close> and \<^verbatim>\<open>lj_vmprofile.h\<close>. The functions
  below take them as a parameter \<open>c\<close>: nothing proved here depends on their values
  beyond what a theorem assumes of them.
\<close>

record vmconsts =
  LJ_VMST_INTERP :: nat
  LJ_VMST_GC :: nat
  LJ_VMST_JGC :: nat
  LJ_VMST_FFI :: nat
  LJ_VMST_LOOP :: nat
  LJ_VMST_HEAD :: nat
  LJ_VMST__MAX :: nat
  LJ_VMPROFILE_TRACE_MAX :: int
  sizeof_VMProfile :: nat

subsection \<open>The counters\<close>

type_synonym addr = "64 word"

text \<open>
  Modelled from the spec: the declarations of \<^verbatim>\<open>VMProfileCount\<close>,
  \<^verbatim>\<open>VMProfileTraceCount\<close> and \<^verbatim>\<open>VMProfile\<close> are in \<^verbatim>\<open>lj_vmprofile.h\<close>. The names
  of the fields are the ones the C file uses; the widths follow section 3 of the
  specification (\<open>magic: u32\<close>, \<open>version: (major: u8, minor: u8)\<close>, counters
  \<open>u64\<close>). The array \<open>vm\<close> has \<^verbatim>\<open>LJ_VMST__MAX\<close> entries and \<open>trace\<close> has
  \<^verbatim>\<open>LJ_VMPROFILE_TRACE_MAX + 1\<close>; here each is a list and its length is the size of
  the array.
\<close>

type_synonym VMProfileCount = "64 word"

record VMProfileTraceCount =
  head :: VMProfileCount
  loop :: VMProfileCount
  ffi :: VMProfileCount
  gc :: VMProfileCount
  interp :: VMProfileCount

record VMProfile =
  magic :: "32 word"
  major :: "8 word"
  minor :: "8 word"
  vm :: "VMProfileCount list"
  trace :: "VMProfileTraceCount list"

subsection \<open>The state of the host\<close>

text \<open>
  What the handler reads of \<^verbatim>\<open>global_State\<close>: the three \<^verbatim>\<open>int32_t\<close> fields
  \<open>vmstate\<close>, \<open>gcvmstate\<close> and \<open>lasttrace\<close>. The handler only compares them and
  complements \<open>vmstate\<close>, which cannot overflow, so they are integers here.
\<close>

record global_State =
  vmstate :: int
  gcvmstate :: int
  lasttrace :: int

text \<open>
  A compiled trace: the address of its machine code, the size of the code and the offset
  of the loop in it (both \<^verbatim>\<open>MSize\<close>, an unsigned 32-bit integer).
\<close>

record GCtrace =
  mcode :: addr
  szmcode :: "32 word"
  mcloop :: "32 word"

text \<open>
  The table \<^verbatim>\<open>J->trace\<close> of the JIT state (\<open>jtrace\<close> here, \<open>trace\<close> being the
  field of the counters): one reference per trace number, \<open>None\<close> for a null reference.
  Its length is \<^verbatim>\<open>J->sizetrace\<close>.
\<close>

record jit_State =
  jtrace :: "GCtrace option list"

datatype fault = NullDeref | OutOfBounds | Unmapped

subsection \<open>The state of the process\<close>

text \<open>
  One call of \<^verbatim>\<open>printf\<close>: the format and the integer arguments.
\<close>

datatype printf_call = Printf string "int list"

text \<open>
  The static pointer \<open>profile\<close>, the memory that holds counter structures, the
  length of every mapping made by \<^verbatim>\<open>mmap\<close>, the open file descriptors, and what was
  written to the standard output.
\<close>

record proc =
  profile :: addr
  mem :: "addr \<rightharpoonup> VMProfile"
  maplen :: "addr \<rightharpoonup> nat"
  fds :: "int list"
  stdout :: "printf_call list"

definition NULL :: addr where
  "NULL = 0"

subsection \<open>Setting the counters\<close>

text \<open>\<^verbatim>\<open>vmprofile_get_profile_size\<close>: \<^verbatim>\<open>return sizeof(VMProfile)\<close>.\<close>

definition vmprofile_get_profile_size :: "vmconsts \<Rightarrow> nat" where
  "vmprofile_get_profile_size c = sizeof_VMProfile c"

text \<open>
  \<^verbatim>\<open>vmprofile_set_profile\<close>: the pointer is stored first, then the three header
  fields are written through it.
\<close>

definition vmprofile_set_profile :: "addr \<Rightarrow> proc \<Rightarrow> fault + proc" where
  "vmprofile_set_profile counters w =
     (let w1 = w\<lparr>profile := counters\<rparr> in
      case mem w1 (profile w1) of
        None \<Rightarrow> Inl (if profile w1 = NULL then NullDeref else Unmapped)
      | Some p \<Rightarrow>
          Inr (w1\<lparr>mem := (mem w1)(profile w1 \<mapsto> p\<lparr>magic := 0x1d50f007, major := 3, minor := 0\<rparr>)\<rparr>))"

subsection \<open>The signal handler\<close>

text \<open>Lines 61 to 72: the trace number the sample belongs to, 0 when there is none.\<close>

definition attributed_trace :: "vmconsts \<Rightarrow> global_State \<Rightarrow> int" where
  "attributed_trace c g =
     (if vmstate g > 0 then vmstate g
      else if NOT (vmstate g) = int (LJ_VMST_GC c) then gcvmstate g
      else if NOT (vmstate g) = int (LJ_VMST_INTERP c) \<and> lasttrace g > 0 then lasttrace g
      else 0)"

text \<open>Line 75: \<^verbatim>\<open>trace > LJ_VMPROFILE_TRACE_MAX ? 0 : trace\<close>.\<close>

definition trace_bucket :: "vmconsts \<Rightarrow> int \<Rightarrow> int" where
  "trace_bucket c t = (if t > LJ_VMPROFILE_TRACE_MAX c then 0 else t)"

text \<open>
  Line 77, \<^verbatim>\<open>traceref(L2J(L), (TraceNo)trace)\<close>, and the first use of \<open>T\<close> on line 79:
  the entry of the table is read and dereferenced. The number is positive here.
\<close>

definition traceref :: "jit_State \<Rightarrow> int \<Rightarrow> fault + GCtrace" where
  "traceref J t =
     (if 0 \<le> t \<and> t < int (length (jtrace J)) then
        (case jtrace J ! nat t of None \<Rightarrow> Inl NullDeref | Some T \<Rightarrow> Inr T)
      else Inl OutOfBounds)"

text \<open>\<^verbatim>\<open>profile->vm[i]++\<close>: the counter wraps at \<open>2 ^ 64\<close>.\<close>

definition vm_incr :: "int \<Rightarrow> VMProfile \<Rightarrow> fault + VMProfile" where
  "vm_incr i p =
     (if 0 \<le> i \<and> i < int (length (vm p)) then
        Inr (p\<lparr>vm := (vm p)[nat i := vm p ! nat i + 1]\<rparr>)
      else Inl OutOfBounds)"

text \<open>
  A write through \<^verbatim>\<open>count = &profile->trace[bucket]\<close>: \<open>f\<close> is the increment of one
  field.
\<close>

definition count_incr ::
  "int \<Rightarrow> (VMProfileTraceCount \<Rightarrow> VMProfileTraceCount) \<Rightarrow> VMProfile \<Rightarrow> fault + VMProfile" where
  "count_incr bucket f p =
     (if 0 \<le> bucket \<and> bucket < int (length (trace p)) then
        Inr (p\<lparr>trace := (trace p)[nat bucket := f (trace p ! nat bucket)]\<rparr>)
      else Inl OutOfBounds)"

text \<open>The two increments of one branch of lines 81 to 96, in the order of the code.\<close>

definition bump ::
  "int \<Rightarrow> int \<Rightarrow> (VMProfileTraceCount \<Rightarrow> VMProfileTraceCount) \<Rightarrow> VMProfile \<Rightarrow> fault + VMProfile" where
  "bump i bucket f p =
     (case vm_incr i p of Inl e \<Rightarrow> Inl e | Inr p1 \<Rightarrow> count_incr bucket f p1)"

text \<open>A read and write of the structure that \<open>profile\<close> points to.\<close>

definition on_profile :: "proc \<Rightarrow> (VMProfile \<Rightarrow> fault + VMProfile) \<Rightarrow> fault + proc" where
  "on_profile w f =
     (case mem w (profile w) of
        None \<Rightarrow> Inl Unmapped
      | Some p \<Rightarrow>
          (case f p of
             Inl e \<Rightarrow> Inl e
           | Inr p' \<Rightarrow> Inr (w\<lparr>mem := (mem w)(profile w \<mapsto> p')\<rparr>)))"

text \<open>Line 80: \<^verbatim>\<open>printf("trace %d interp %d\n", trace, ~vmstate == LJ_VMST_INTERP)\<close>.\<close>

definition debug_printf :: "vmconsts \<Rightarrow> global_State \<Rightarrow> int \<Rightarrow> printf_call" where
  "debug_printf c g t =
     Printf (''trace %d interp %d'' @ [CHR 0x0A])
       [t, if NOT (vmstate g) = int (LJ_VMST_INTERP c) then 1 else 0]"

text \<open>
  \<^verbatim>\<open>vmprofile_signal\<close>. \<open>g\<close> is the global state that \<^verbatim>\<open>state.g\<close> points to and
  \<open>J\<close> its JIT state, as they are when the signal arrives; \<open>rip\<close> is
  \<^verbatim>\<open>gregs[REG_RIP]\<close> of the interrupted context. \<open>mcposition\<close> is the difference of
  two \<^verbatim>\<open>intptr_t\<close> as the machine computes it, a signed 64-bit integer, and is
  compared with the unsigned 32-bit \<open>szmcode\<close> and \<open>mcloop\<close> after their conversion to
  \<^verbatim>\<open>ptrdiff_t\<close>. The call of \<^verbatim>\<open>printf\<close> comes after the first use of \<open>T\<close> and
  before the increments.
\<close>

definition vmprofile_signal ::
  "vmconsts \<Rightarrow> global_State \<Rightarrow> jit_State \<Rightarrow> addr \<Rightarrow> proc \<Rightarrow> fault + proc" where
  "vmprofile_signal c g J rip w =
     (if profile w \<noteq> NULL then
        (let t = attributed_trace c g in
         if t > 0 then
           (let bucket = trace_bucket c t in
            case traceref J t of
              Inl e \<Rightarrow> Inl e
            | Inr T \<Rightarrow>
                (let mcposition = sint (rip - mcode T);
                     w1 = w\<lparr>stdout := stdout w @ [debug_printf c g t]\<rparr>
                 in
                 if NOT (vmstate g) = int (LJ_VMST_GC c) then
                   on_profile w1 (bump (int (LJ_VMST_JGC c)) bucket (\<lambda>n. n\<lparr>gc := gc n + 1\<rparr>))
                 else if NOT (vmstate g) = int (LJ_VMST_INTERP c) then
                   on_profile w1 (bump (int (LJ_VMST_INTERP c)) bucket (\<lambda>n. n\<lparr>interp := interp n + 1\<rparr>))
                 else if mcposition < 0 \<or> mcposition \<ge> uint (szmcode T) then
                   on_profile w1 (bump (int (LJ_VMST_FFI c)) bucket (\<lambda>n. n\<lparr>ffi := ffi n + 1\<rparr>))
                 else if mcloop T \<noteq> 0 \<and> mcposition \<ge> uint (mcloop T) then
                   on_profile w1 (bump (int (LJ_VMST_LOOP c)) bucket (\<lambda>n. n\<lparr>loop := loop n + 1\<rparr>))
                 else
                   on_profile w1 (bump (int (LJ_VMST_HEAD c)) bucket (\<lambda>n. n\<lparr>head := head n + 1\<rparr>))))
         else on_profile w (vm_incr (NOT (vmstate g))))
      else Inr w)"

subsection \<open>Timer and signal\<close>

text \<open>
  The part of the kernel the two functions talk to: the \<^verbatim>\<open>ITIMER_PROF\<close> timer and the
  action of \<^verbatim>\<open>SIGPROF\<close>. \<^verbatim>\<open>setitimer\<close> and \<^verbatim>\<open>sigaction\<close> behave as POSIX says, and
  the code ignores what they return.
\<close>

record timeval =
  tv_sec :: int
  tv_usec :: int

record itimerval =
  it_interval :: timeval
  it_value :: timeval

datatype sighandler = SIG_DFL | SIG_IGN | vmprofile_signal_fn | other_handler nat

datatype saflag = SA_SIGINFO | SA_RESTART | other_flag nat

record sigaction_t =
  sa_sigaction :: sighandler
  sa_flags :: "saflag list"
  sa_mask :: "nat list"

record kernel =
  itimer_prof :: itimerval
  sigprof :: sigaction_t

text \<open>The static \<^verbatim>\<open>state\<close> of the file; \<open>g\<close> is the address of the global state.\<close>

record pstate =
  state_g :: addr
  oldsa :: sigaction_t

text \<open>\<^verbatim>\<open>setitimer(ITIMER_PROF, &tm, NULL)\<close>.\<close>

definition setitimer :: "itimerval \<Rightarrow> kernel \<Rightarrow> kernel" where
  "setitimer tm k = k\<lparr>itimer_prof := tm\<rparr>"

text \<open>
  \<^verbatim>\<open>sigaction(SIGPROF, act, oldact)\<close> with \<open>oldact\<close> not null: the action in force is
  returned, and \<open>act\<close> is installed when it is not null.
\<close>

definition sigaction :: "sigaction_t option \<Rightarrow> kernel \<Rightarrow> kernel \<times> sigaction_t" where
  "sigaction act k =
     ((case act of None \<Rightarrow> k | Some sa \<Rightarrow> k\<lparr>sigprof := sa\<rparr>), sigprof k)"

text \<open>
  \<^verbatim>\<open>/\<close> and \<^verbatim>\<open>%\<close> on \<^verbatim>\<open>int\<close> in C: the quotient is rounded towards zero and the
  remainder has the sign of the dividend.
\<close>

definition c_div :: "int \<Rightarrow> int \<Rightarrow> int" where
  "c_div a b = (if (a < 0) = (b < 0) then \<bar>a\<bar> div \<bar>b\<bar> else - (\<bar>a\<bar> div \<bar>b\<bar>))"

definition c_mod :: "int \<Rightarrow> int \<Rightarrow> int" where
  "c_mod a b = a - b * c_div a b"

definition start_timer :: "int \<Rightarrow> pstate \<Rightarrow> kernel \<Rightarrow> pstate \<times> kernel" where
  "start_timer interval st k =
     (let tv = \<lparr>tv_sec = c_div interval 1000, tv_usec = c_mod interval 1000 * 1000\<rparr>;
          tm = \<lparr>it_interval = tv, it_value = tv\<rparr>;
          k1 = setitimer tm k;
          sa = \<lparr>sa_sigaction = vmprofile_signal_fn, sa_flags = [SA_SIGINFO, SA_RESTART], sa_mask = []\<rparr>;
          (k2, old) = sigaction (Some sa) k1
      in (st\<lparr>oldsa := old\<rparr>, k2))"

definition stop_timer :: "pstate \<Rightarrow> kernel \<Rightarrow> pstate \<times> kernel" where
  "stop_timer st k =
     (let tv = \<lparr>tv_sec = 0, tv_usec = 0\<rparr>;
          tm = \<lparr>it_interval = tv, it_value = tv\<rparr>;
          k1 = setitimer tm k;
          (k2, old) = sigaction None k1
      in (st\<lparr>oldsa := old\<rparr>, k2))"

text \<open>
  \<^verbatim>\<open>luaJIT_vmprofile_start\<close>: \<^verbatim>\<open>memset(&state, 0, sizeof(state))\<close> makes the saved
  action all zero (the default handler, no flag, the empty mask), then \<open>g\<close> is set and
  the timer started with 1 ms. \<^verbatim>\<open>luaJIT_vmprofile_stop\<close> calls \<open>stop_timer\<close>.
\<close>

definition luaJIT_vmprofile_start :: "addr \<Rightarrow> pstate \<Rightarrow> kernel \<Rightarrow> pstate \<times> kernel" where
  "luaJIT_vmprofile_start G_L st k =
     (let st0 = \<lparr>state_g = 0, oldsa = \<lparr>sa_sigaction = SIG_DFL, sa_flags = [], sa_mask = []\<rparr>\<rparr>;
          st1 = st0\<lparr>state_g := G_L\<rparr>
      in start_timer 1 st1 k)"

definition luaJIT_vmprofile_stop :: "pstate \<Rightarrow> kernel \<Rightarrow> pstate \<times> kernel" where
  "luaJIT_vmprofile_stop st k = stop_timer st k"

subsection \<open>The Lua API\<close>

text \<open>What a call leaves in \<^verbatim>\<open>L->base\<close>: nil or a light userdata.\<close>

datatype TValue = nilV | lightudV addr

text \<open>
  What the three system calls of \<^verbatim>\<open>luaJIT_vmprofile_open\<close> answer: the descriptor of
  \<^verbatim>\<open>open\<close> (\<open>-1\<close> when it fails), the result of \<^verbatim>\<open>ftruncate\<close> (\<open>-1\<close> when it fails),
  the address of \<^verbatim>\<open>mmap\<close> (\<^verbatim>\<open>MAP_FAILED\<close> when it fails).
\<close>

record sysenv =
  open_ret :: int
  ftruncate_ret :: int
  mmap_ret :: addr

definition MAP_FAILED :: addr where
  "MAP_FAILED = - 1"

text \<open>\<^verbatim>\<open>memset(ptr, 0, sizeof(VMProfile))\<close>: every field of the structure is zero.\<close>

definition zero_VMProfile :: "vmconsts \<Rightarrow> VMProfile" where
  "zero_VMProfile c =
     \<lparr>magic = 0, major = 0, minor = 0,
      vm = replicate (LJ_VMST__MAX c) 0,
      trace = replicate (nat (LJ_VMPROFILE_TRACE_MAX c + 1))
        \<lparr>head = 0, loop = 0, ffi = 0, gc = 0, interp = 0\<rparr>\<rparr>"

text \<open>
  \<^verbatim>\<open>luaJIT_vmprofile_open\<close>. The three calls are joined by \<^verbatim>\<open>&&\<close>: a call is made only
  when the ones before it succeeded. The descriptor is closed whenever \<^verbatim>\<open>open\<close>
  succeeded. \<^verbatim>\<open>checklightudptr\<close> (of \<^verbatim>\<open>lj_obj.h\<close>) lets every address of the user
  space pass, and \<^verbatim>\<open>mmap\<close> returns no other.
\<close>

definition luaJIT_vmprofile_open :: "vmconsts \<Rightarrow> sysenv \<Rightarrow> proc \<Rightarrow> TValue \<times> proc" where
  "luaJIT_vmprofile_open c env w =
     (let fd = open_ret env in
      if fd \<noteq> - 1 then
        (let w1 = w\<lparr>fds := fd # fds w\<rparr> in
         if ftruncate_ret env \<noteq> - 1 then
           (let ptr = mmap_ret env in
            if ptr \<noteq> MAP_FAILED then
              (let w2 = w1\<lparr>maplen := (maplen w1)(ptr \<mapsto> sizeof_VMProfile c)\<rparr>;
                   w3 = w2\<lparr>mem := (mem w2)(ptr \<mapsto> zero_VMProfile c)\<rparr>
               in (lightudV ptr, w3\<lparr>fds := remove1 fd (fds w3)\<rparr>))
            else (nilV, w1\<lparr>fds := remove1 fd (fds w1)\<rparr>))
         else (nilV, w1\<lparr>fds := remove1 fd (fds w1)\<rparr>))
      else (nilV, w))"

text \<open>\<^verbatim>\<open>luaJIT_vmprofile_close\<close>: \<^verbatim>\<open>munmap(ud, sizeof(VMProfile))\<close>.\<close>

definition luaJIT_vmprofile_close :: "addr \<Rightarrow> proc \<Rightarrow> proc" where
  "luaJIT_vmprofile_close ud w = w\<lparr>mem := (mem w)(ud := None), maplen := (maplen w)(ud := None)\<rparr>"

text \<open>
  \<^verbatim>\<open>luaJIT_vmprofile_select\<close>: the old pointer is the result, the new one is stored;
  nothing is written through it.
\<close>

definition luaJIT_vmprofile_select :: "addr \<Rightarrow> proc \<Rightarrow> TValue \<times> proc" where
  "luaJIT_vmprofile_select ud w = (lightudV (profile w), w\<lparr>profile := ud\<rparr>)"

section \<open>Vocabulary of the properties\<close>

text \<open>
  The five counters of a \<^verbatim>\<open>VMProfileTraceCount\<close> by name, the reading of one and the
  increment of one.
\<close>

datatype subcounter = Head | Loop | Ffi | Gc | Interp

fun sub_get :: "subcounter \<Rightarrow> VMProfileTraceCount \<Rightarrow> VMProfileCount" where
  "sub_get Head n = head n"
| "sub_get Loop n = loop n"
| "sub_get Ffi n = ffi n"
| "sub_get Gc n = gc n"
| "sub_get Interp n = interp n"

fun sub_incr :: "subcounter \<Rightarrow> VMProfileTraceCount \<Rightarrow> VMProfileTraceCount" where
  "sub_incr Head n = n\<lparr>head := head n + 1\<rparr>"
| "sub_incr Loop n = n\<lparr>loop := loop n + 1\<rparr>"
| "sub_incr Ffi n = n\<lparr>ffi := ffi n + 1\<rparr>"
| "sub_incr Gc n = n\<lparr>gc := gc n + 1\<rparr>"
| "sub_incr Interp n = n\<lparr>interp := interp n + 1\<rparr>"

text \<open>
  The counters \<open>p\<close> after one sample counted in the global counter \<open>i\<close> and in the
  counter \<open>s\<close> of the trace bucket \<open>b\<close>.
\<close>

definition counted :: "VMProfile \<Rightarrow> nat \<Rightarrow> nat \<Rightarrow> subcounter \<Rightarrow> VMProfile" where
  "counted p i b s =
     p\<lparr>vm := (vm p)[i := vm p ! i + 1], trace := (trace p)[b := sub_incr s (trace p ! b)]\<rparr>"

text \<open>
  The process after a sample that belongs to a trace: the line printed on line 80 and
  the counters \<open>p\<close> of the active structure counted in \<open>i\<close> and in \<open>s\<close> of the
  bucket of the trace.
\<close>

definition sampled ::
  "vmconsts \<Rightarrow> global_State \<Rightarrow> proc \<Rightarrow> VMProfile \<Rightarrow> nat \<Rightarrow> subcounter \<Rightarrow> proc" where
  "sampled c g w p i s =
     w\<lparr>stdout := stdout w @ [debug_printf c g (attributed_trace c g)],
       mem := (mem w)(profile w \<mapsto>
         counted p i (nat (trace_bucket c (attributed_trace c g))) s)\<rparr>"

text \<open>The pairs of a global counter and a trace counter that belong together.\<close>

definition matching :: "vmconsts \<Rightarrow> (nat \<times> subcounter) list" where
  "matching c =
     [(LJ_VMST_JGC c, Gc), (LJ_VMST_INTERP c, Interp), (LJ_VMST_FFI c, Ffi),
      (LJ_VMST_LOOP c, Loop), (LJ_VMST_HEAD c, Head)]"

text \<open>
  What an enum and the bound give: the six states are distinct and below
  \<^verbatim>\<open>LJ_VMST__MAX\<close>, and the bound is not negative.
\<close>

definition consts_ok :: "vmconsts \<Rightarrow> bool" where
  "consts_ok c =
     (distinct [LJ_VMST_INTERP c, LJ_VMST_GC c, LJ_VMST_JGC c, LJ_VMST_FFI c,
        LJ_VMST_LOOP c, LJ_VMST_HEAD c]
      \<and> list_all (\<lambda>i. i < LJ_VMST__MAX c)
          [LJ_VMST_INTERP c, LJ_VMST_GC c, LJ_VMST_JGC c, LJ_VMST_FFI c,
           LJ_VMST_LOOP c, LJ_VMST_HEAD c]
      \<and> 0 \<le> LJ_VMPROFILE_TRACE_MAX c)"

text \<open>The two arrays of a structure have the sizes of their declaration.\<close>

definition layout_ok :: "vmconsts \<Rightarrow> VMProfile \<Rightarrow> bool" where
  "layout_ok c p =
     (length (vm p) = LJ_VMST__MAX c \<and> length (trace p) = nat (LJ_VMPROFILE_TRACE_MAX c + 1))"

text \<open>
  The branch of lines 81 to 96 that a sample of a trace takes, as the global counter and
  the trace counter it bumps.
\<close>

definition sample_class :: "vmconsts \<Rightarrow> global_State \<Rightarrow> GCtrace \<Rightarrow> addr \<Rightarrow> nat \<times> subcounter" where
  "sample_class c g T rip =
     (if NOT (vmstate g) = int (LJ_VMST_GC c) then (LJ_VMST_JGC c, Gc)
      else if NOT (vmstate g) = int (LJ_VMST_INTERP c) then (LJ_VMST_INTERP c, Interp)
      else if sint (rip - mcode T) < 0 \<or> uint (szmcode T) \<le> sint (rip - mcode T)
        then (LJ_VMST_FFI c, Ffi)
      else if mcloop T \<noteq> 0 \<and> uint (mcloop T) \<le> sint (rip - mcode T)
        then (LJ_VMST_LOOP c, Loop)
      else (LJ_VMST_HEAD c, Head))"

text \<open>The structure at an address after a run, when the run did not fault.\<close>

definition store_after :: "fault + proc \<Rightarrow> addr \<Rightarrow> VMProfile option" where
  "store_after r a = (case r of Inl e \<Rightarrow> None | Inr w' \<Rightarrow> mem w' a)"

section \<open>Concrete states\<close>

text \<open>
  An instance of the constants: the VM states numbered in the order of LuaJIT's enum
  (interpreter 0, C 1, collector 2, exit 3, recorder 4, optimiser 5, assembler 6)
  followed by the four states of this profiler, 4096 distinct trace buckets, and the
  size of a structure with an 8-byte header, 11 global counters and 4097 times 5
  trace counters.
\<close>

definition ex_consts :: vmconsts where
  "ex_consts =
     \<lparr>LJ_VMST_INTERP = 0, LJ_VMST_GC = 2, LJ_VMST_JGC = 9, LJ_VMST_FFI = 10,
      LJ_VMST_LOOP = 8, LJ_VMST_HEAD = 7, LJ_VMST__MAX = 11,
      LJ_VMPROFILE_TRACE_MAX = 4096, sizeof_VMProfile = 163976\<rparr>"

text \<open>
  Two traces of 64 bytes of machine code, the first with its loop at offset 16, the
  second without a loop, as traces 1 and 2 of a JIT state.
\<close>

definition ex_T :: GCtrace where
  "ex_T = \<lparr>mcode = 0x10000, szmcode = 64, mcloop = 16\<rparr>"

definition ex_T0 :: GCtrace where
  "ex_T0 = \<lparr>mcode = 0x20000, szmcode = 64, mcloop = 0\<rparr>"

definition ex_J :: jit_State where
  "ex_J = \<lparr>jtrace = [None, Some ex_T, Some ex_T0]\<rparr>"

text \<open>A process whose active structure is a freshly zeroed one.\<close>

definition ex_addr :: addr where
  "ex_addr = 0x7f0000000000"

definition ex_w :: proc where
  "ex_w =
     \<lparr>profile = ex_addr, mem = [ex_addr \<mapsto> zero_VMProfile ex_consts],
      maplen = [ex_addr \<mapsto> sizeof_VMProfile ex_consts], fds = [], stdout = []\<rparr>"

text \<open>
  Global states: machine code of trace \<open>v\<close> running; the interpreter entered after
  trace 1; the collector running for trace 2; the plain interpreter.
\<close>

definition ex_g :: "int \<Rightarrow> global_State" where
  "ex_g v = \<lparr>vmstate = v, gcvmstate = 0, lasttrace = 0\<rparr>"

definition ex_g_interp :: global_State where
  "ex_g_interp = \<lparr>vmstate = - 1, gcvmstate = 0, lasttrace = 1\<rparr>"

definition ex_g_gc :: global_State where
  "ex_g_gc = \<lparr>vmstate = - 3, gcvmstate = 2, lasttrace = 1\<rparr>"

definition ex_g_plain :: global_State where
  "ex_g_plain = \<lparr>vmstate = - 1, gcvmstate = 2, lasttrace = 0\<rparr>"

text \<open>The same process with the interpreter's global counter at its greatest value.\<close>

definition ex_w_max :: proc where
  "ex_w_max =
     ex_w\<lparr>mem := [ex_addr \<mapsto>
       (zero_VMProfile ex_consts)\<lparr>vm := (replicate 11 0)[0 := 0xFFFFFFFFFFFFFFFF]\<rparr>]\<rparr>"

text \<open>A structure that has been used: another header and counters that are not zero.\<close>

definition ex_used :: VMProfile where
  "ex_used =
     \<lparr>magic = 0xdeadbeef, major = 7, minor = 9, vm = [5, 0, 17],
      trace = [\<lparr>head = 1, loop = 2, ffi = 3, gc = 4, interp = 5\<rparr>]\<rparr>"

text \<open>
  Three system calls that succeed, and a process with nothing mapped and no active
  structure.
\<close>

definition ex_env :: sysenv where
  "ex_env = \<lparr>open_ret = 3, ftruncate_ret = 0, mmap_ret = ex_addr\<rparr>"

definition ex_w0 :: proc where
  "ex_w0 = \<lparr>profile = NULL, mem = Map.empty, maplen = Map.empty, fds = [0, 1, 2], stdout = []\<rparr>"

text \<open>A kernel where the application has a handler of its own for \<^verbatim>\<open>SIGPROF\<close>.\<close>

definition ex_kernel :: kernel where
  "ex_kernel =
     \<lparr>itimer_prof =
        \<lparr>it_interval = \<lparr>tv_sec = 0, tv_usec = 0\<rparr>, it_value = \<lparr>tv_sec = 0, tv_usec = 0\<rparr>\<rparr>,
      sigprof = \<lparr>sa_sigaction = other_handler 1, sa_flags = [], sa_mask = []\<rparr>\<rparr>"

definition ex_pstate :: pstate where
  "ex_pstate = \<lparr>state_g = 0, oldsa = \<lparr>sa_sigaction = SIG_DFL, sa_flags = [], sa_mask = []\<rparr>\<rparr>"

section \<open>Lemmas\<close>

subsection \<open>The counters after a sample\<close>

lemma sub_incr_lambdas:
  "(\<lambda>n. n\<lparr>gc := gc n + 1\<rparr>) = sub_incr Gc"
  "(\<lambda>n. n\<lparr>interp := interp n + 1\<rparr>) = sub_incr Interp"
  "(\<lambda>n. n\<lparr>ffi := ffi n + 1\<rparr>) = sub_incr Ffi"
  "(\<lambda>n. n\<lparr>loop := loop n + 1\<rparr>) = sub_incr Loop"
  "(\<lambda>n. n\<lparr>head := head n + 1\<rparr>) = sub_incr Head"
  by (simp_all add: fun_eq_iff)

lemma sub_get_incr:
  "sub_get s' (sub_incr s n) = (if s' = s then sub_get s' n + 1 else sub_get s' n)"
  by (cases s; cases s') simp_all

lemma counted_lengths:
  "length (vm (counted p i b s)) = length (vm p)"
  "length (trace (counted p i b s)) = length (trace p)"
  by (simp_all add: counted_def)

lemma counted_vm_nth:
  assumes "j < length (vm p)"
  shows "vm (counted p i b s) ! j = (if j = i then vm p ! j + 1 else vm p ! j)"
  using assms by (simp add: counted_def nth_list_update)

lemma counted_trace_nth:
  assumes "k < length (trace p)"
  shows "trace (counted p i b s) ! k = (if k = b then sub_incr s (trace p ! k) else trace p ! k)"
  using assms by (simp add: counted_def nth_list_update)

lemma store_after_sampled:
  "store_after (Inr (sampled c g w p i s)) (profile w) =
     Some (counted p i (nat (trace_bucket c (attributed_trace c g))) s)"
  by (simp add: store_after_def sampled_def)

lemma word64_incr_le:
  assumes "unat (x :: 64 word) < 2 ^ 64 - 1"
  shows "x \<le> x + 1"
proof -
  have "unat (- 1 :: 64 word) = 2 ^ 64 - 1"
    by (simp add: unsigned_minus_1_eq_mask mask_eq_exp_minus_1)
  then have "x \<noteq> - 1"
    using assms by auto
  then show ?thesis
    by (meson inc_less_eq_triv_imp nle_le)
qed

subsection \<open>The increments\<close>

lemma bucket_in_range:
  assumes "consts_ok c" "layout_ok c p" "0 < t"
  shows "0 \<le> trace_bucket c t \<and> trace_bucket c t < int (length (trace p))"
  using assms by (auto simp: consts_ok_def layout_ok_def trace_bucket_def)

lemma bump_counted:
  assumes "i < length (vm p)" "0 \<le> b" "b < int (length (trace p))"
  shows "bump (int i) b (sub_incr s) p = Inr (counted p i (nat b) s)"
  using assms by (simp add: bump_def vm_incr_def count_incr_def counted_def)

lemma vm_incr_Inr:
  assumes "vm_incr i p = Inr p'"
  shows "nat i < length (vm p) \<and> p' = p\<lparr>vm := (vm p)[nat i := vm p ! nat i + 1]\<rparr>"
  using assms by (auto simp: vm_incr_def split: if_splits)

lemma bump_Inr:
  assumes "bump i b (sub_incr s) p = Inr p'"
  shows "nat i < length (vm p) \<and> nat b < length (trace p) \<and> p' = counted p (nat i) (nat b) s"
  using assms
  by (auto simp: bump_def vm_incr_def count_incr_def counted_def split: if_splits)

lemma on_profile_Inr:
  assumes "on_profile w f = Inr w'" "mem w (profile w) = Some p"
  shows "\<exists>p'. f p = Inr p' \<and> w' = w\<lparr>mem := (mem w)(profile w \<mapsto> p')\<rparr>"
  using assms by (auto simp: on_profile_def split: sum.splits)

subsection \<open>The branch of a sample\<close>

lemma sample_class_in_range:
  assumes "consts_ok c" "layout_ok c p"
  shows "fst (sample_class c g T rip) < length (vm p)"
  using assms by (simp add: consts_ok_def layout_ok_def sample_class_def)

lemma sample_class_matching: "sample_class c g T rip \<in> set (matching c)"
  by (simp add: sample_class_def matching_def)

lemma sample_class_interp:
  assumes "consts_ok c" "NOT (vmstate g) = int (LJ_VMST_INTERP c)"
  shows "sample_class c g T rip = (LJ_VMST_INTERP c, Interp)"
  using assms by (auto simp: sample_class_def consts_ok_def)

lemma attributed_mcode:
  assumes "0 < vmstate g"
  shows "attributed_trace c g = vmstate g"
    and "NOT (vmstate g) \<noteq> int n"
  using assms by (simp_all add: attributed_trace_def not_int_def)

subsection \<open>The handler, case by case\<close>

text \<open>
  With an active structure of the declared layout and a trace that exists, the handler
  does not fault: it prints and counts the sample in the pair of its branch.
\<close>

lemma signal_attributed:
  assumes "profile w \<noteq> NULL" "mem w (profile w) = Some p" "consts_ok c" "layout_ok c p"
    "0 < attributed_trace c g" "traceref J (attributed_trace c g) = Inr T"
  shows "vmprofile_signal c g J rip w =
    Inr (sampled c g w p (fst (sample_class c g T rip)) (snd (sample_class c g T rip)))"
proof -
  let ?t = "attributed_trace c g"
  have b: "0 \<le> trace_bucket c ?t" "trace_bucket c ?t < int (length (trace p))"
    using bucket_in_range [OF assms(3,4,5)] by simp_all
  have i: "LJ_VMST_JGC c < length (vm p)" "LJ_VMST_INTERP c < length (vm p)"
    "LJ_VMST_FFI c < length (vm p)" "LJ_VMST_LOOP c < length (vm p)"
    "LJ_VMST_HEAD c < length (vm p)"
    using assms(3,4) by (simp_all add: consts_ok_def layout_ok_def)
  show ?thesis
    using assms(1,2,5,6) b i
    by (simp add: vmprofile_signal_def Let_def on_profile_def sub_incr_lambdas bump_counted
        sample_class_def sampled_def)
qed

text \<open>Without a trace, one global counter is bumped when the state indexes the array.\<close>

lemma signal_unattributed:
  assumes "profile w \<noteq> NULL" "mem w (profile w) = Some p" "\<not> 0 < attributed_trace c g"
    "0 \<le> NOT (vmstate g)" "NOT (vmstate g) < int (length (vm p))"
  shows "vmprofile_signal c g J rip w =
    Inr (w\<lparr>mem := (mem w)(profile w \<mapsto>
      p\<lparr>vm := (vm p)[nat (NOT (vmstate g)) := vm p ! nat (NOT (vmstate g)) + 1]\<rparr>)\<rparr>)"
  using assms by (simp add: vmprofile_signal_def Let_def on_profile_def vm_incr_def)

text \<open>Every run that does not fault is one of the two.\<close>

lemma signal_Inr_cases:
  assumes "vmprofile_signal c g J rip w = Inr w'" "profile w \<noteq> NULL"
    "mem w (profile w) = Some p"
  shows "(\<exists>i. i < length (vm p)
            \<and> mem w' (profile w) = Some (p\<lparr>vm := (vm p)[i := vm p ! i + 1]\<rparr>))
       \<or> (\<exists>i b s. i < length (vm p) \<and> b < length (trace p)
            \<and> mem w' (profile w) = Some (counted p i b s))"
proof (cases "0 < attributed_trace c g")
  case False
  then have "on_profile w (vm_incr (NOT (vmstate g))) = Inr w'"
    using assms(1,2) by (simp add: vmprofile_signal_def Let_def)
  from on_profile_Inr [OF this assms(3)] obtain p' where
    p': "vm_incr (NOT (vmstate g)) p = Inr p'" "w' = w\<lparr>mem := (mem w)(profile w \<mapsto> p')\<rparr>"
    by blast
  from vm_incr_Inr [OF p'(1)] p'(2) have
    "nat (NOT (vmstate g)) < length (vm p)
      \<and> mem w' (profile w) =
          Some (p\<lparr>vm := (vm p)[nat (NOT (vmstate g)) := vm p ! nat (NOT (vmstate g)) + 1]\<rparr>)"
    by auto
  then show ?thesis by blast
next
  case True
  let ?w1 = "w\<lparr>stdout := stdout w @ [debug_printf c g (attributed_trace c g)]\<rparr>"
  let ?b = "trace_bucket c (attributed_trace c g)"
  have m1: "mem ?w1 (profile ?w1) = Some p"
    using assms(3) by simp
  from True assms(1,2) obtain i s where "on_profile ?w1 (bump i ?b (sub_incr s)) = Inr w'"
    by (auto simp: vmprofile_signal_def Let_def sub_incr_lambdas split: sum.splits if_splits)
  from on_profile_Inr [OF this m1] obtain p' where
    p': "bump i ?b (sub_incr s) p = Inr p'" "w' = ?w1\<lparr>mem := (mem ?w1)(profile ?w1 \<mapsto> p')\<rparr>"
    by blast
  from bump_Inr [OF p'(1)] p'(2) have
    "nat i < length (vm p) \<and> nat ?b < length (trace p)
      \<and> mem w' (profile w) = Some (counted p (nat i) (nat ?b) s)"
    by simp
  then show ?thesis by blast
qed

subsection \<open>The offset of the interrupted instruction\<close>

lemma sint_word_of_int_small:
  assumes "- (2 ^ 63) \<le> x" "x < 2 ^ 63"
  shows "sint (word_of_int x :: 64 word) = x"
proof -
  have "sint (word_of_int x :: 64 word) = signed_take_bit 63 x"
    by (simp add: sint_sbintrunc')
  also have "\<dots> = x"
    using assms by (simp only: signed_take_bit_int_eq_self_iff)
  finally show ?thesis .
qed

lemma uint32_small: "- (2 ^ 63) \<le> uint (k :: 32 word) - 1 \<and> uint k < 2 ^ 63"
proof -
  have "uint k < 4294967296"
    using uint_bounded [of k] by simp
  moreover have "(0::int) \<le> uint k"
    by simp
  ultimately have "- 9223372036854775808 \<le> uint k - 1 \<and> uint k < 9223372036854775808"
    by linarith
  then show ?thesis by simp
qed

lemma mcposition_before: "sint ((base - 1) - base :: 64 word) = - 1"
  by simp

lemma mcposition_at: "sint (base - base :: 64 word) = 0"
  by simp

lemma sint_ucast32: "sint (ucast (k :: 32 word) :: 64 word) = uint k"
proof -
  have "- (2 ^ 63) \<le> uint k" "uint k < 2 ^ 63"
    using uint32_small [of k] by simp_all
  then have "sint (word_of_int (uint k) :: 64 word) = uint k"
    by (rule sint_word_of_int_small)
  then show ?thesis
    by (simp only: ucast_eq [symmetric])
qed

lemma sint_ucast32_pred: "sint (ucast (k :: 32 word) - 1 :: 64 word) = uint k - 1"
proof -
  have "(word_of_int (uint k - 1) :: 64 word) = ucast k - 1"
    by simp
  moreover have "sint (word_of_int (uint k - 1) :: 64 word) = uint k - 1"
    using uint32_small [of k] by (intro sint_word_of_int_small) simp_all
  ultimately show ?thesis
    by simp
qed

subsection \<open>Timer, signal and file\<close>

lemma stop_timer_effect:
  "stop_timer st k =
     (st\<lparr>oldsa := sigprof k\<rparr>,
      k\<lparr>itimer_prof :=
          \<lparr>it_interval = \<lparr>tv_sec = 0, tv_usec = 0\<rparr>, it_value = \<lparr>tv_sec = 0, tv_usec = 0\<rparr>\<rparr>\<rparr>)"
  by (simp add: stop_timer_def setitimer_def sigaction_def Let_def)

lemma start_timer_effect:
  "start_timer interval st k =
     (st\<lparr>oldsa := sigprof k\<rparr>,
      k\<lparr>itimer_prof :=
           \<lparr>it_interval = \<lparr>tv_sec = c_div interval 1000, tv_usec = c_mod interval 1000 * 1000\<rparr>,
            it_value = \<lparr>tv_sec = c_div interval 1000, tv_usec = c_mod interval 1000 * 1000\<rparr>\<rparr>,
         sigprof :=
           \<lparr>sa_sigaction = vmprofile_signal_fn, sa_flags = [SA_SIGINFO, SA_RESTART],
            sa_mask = []\<rparr>\<rparr>)"
  by (simp add: start_timer_def setitimer_def sigaction_def Let_def)

lemma open_fails:
  assumes "open_ret env = - 1 \<or> ftruncate_ret env = - 1 \<or> mmap_ret env = MAP_FAILED"
  shows "luaJIT_vmprofile_open c env w = (nilV, w)"
  using assms by (auto simp: luaJIT_vmprofile_open_def Let_def)

lemma open_succeeds:
  assumes "open_ret env \<noteq> - 1" "ftruncate_ret env \<noteq> - 1" "mmap_ret env \<noteq> MAP_FAILED"
  shows "luaJIT_vmprofile_open c env w =
    (lightudV (mmap_ret env),
     w\<lparr>maplen := (maplen w)(mmap_ret env \<mapsto> sizeof_VMProfile c),
       mem := (mem w)(mmap_ret env \<mapsto> zero_VMProfile c)\<rparr>)"
  using assms by (simp add: luaJIT_vmprofile_open_def Let_def)

subsection \<open>The concrete states\<close>

lemma ex_consts_ok: "consts_ok ex_consts"
  by (simp add: consts_ok_def ex_consts_def)

lemma zero_layout_ok: "0 \<le> LJ_VMPROFILE_TRACE_MAX c \<Longrightarrow> layout_ok c (zero_VMProfile c)"
  by (simp add: layout_ok_def zero_VMProfile_def)

lemma ex_layout_ok: "layout_ok ex_consts (zero_VMProfile ex_consts)"
  by (rule zero_layout_ok) (simp add: ex_consts_def)

lemma ex_w_active:
  "profile ex_w \<noteq> NULL" "mem ex_w (profile ex_w) = Some (zero_VMProfile ex_consts)"
  by (simp_all add: ex_w_def ex_addr_def NULL_def)

lemma ex_traceref: "traceref ex_J 1 = Inr ex_T" "traceref ex_J 2 = Inr ex_T0"
  by (simp_all add: traceref_def ex_J_def)

lemma ex_env_succeeds:
  "open_ret ex_env \<noteq> - 1" "ftruncate_ret ex_env \<noteq> - 1" "mmap_ret ex_env \<noteq> MAP_FAILED"
  "mmap_ret ex_env = ex_addr"
  by (simp_all add: ex_env_def MAP_FAILED_def ex_addr_def)

section \<open>Properties\<close>

subsection \<open>Classification by the offset in the machine code\<close>

text \<open>
  C1, as the code has it. A sample taken while the machine code of a trace runs
  (\<open>vmstate > 0\<close>), for a trace with code at \<open>[mcode, mcode + szmcode)\<close> and loop
  offset \<open>mcloop < szmcode\<close>: the instruction pointer \<open>mcode - 1\<close> is counted as
  \<open>ffi\<close>, and so is \<open>mcode + szmcode\<close>. When \<open>mcloop\<close> is not 0,
  \<open>mcode + mcloop - 1\<close> is counted as \<open>head\<close> and \<open>mcode + mcloop\<close> as \<open>loop\<close>.
  When \<open>mcloop\<close> is 0 the code takes the trace to have no loop (line 90 tests
  \<^verbatim>\<open>T->mcloop != 0\<close> first), and \<open>mcode\<close> itself is counted as \<open>head\<close>, not as
  \<open>loop\<close>. Each time the global counter is the one that matches.
\<close>

theorem mcode_offset_classes:
  assumes "profile w \<noteq> NULL" and "mem w (profile w) = Some p"
    and "consts_ok c" and "layout_ok c p"
    and "0 < vmstate g" and "traceref J (vmstate g) = Inr T"
    and "mcloop T < szmcode T"
  shows "vmprofile_signal c g J (mcode T - 1) w = Inr (sampled c g w p (LJ_VMST_FFI c) Ffi)
    \<and> vmprofile_signal c g J (mcode T + ucast (szmcode T)) w =
        Inr (sampled c g w p (LJ_VMST_FFI c) Ffi)
    \<and> (mcloop T \<noteq> 0 \<longrightarrow>
         vmprofile_signal c g J (mcode T + ucast (mcloop T) - 1) w =
           Inr (sampled c g w p (LJ_VMST_HEAD c) Head)
       \<and> vmprofile_signal c g J (mcode T + ucast (mcloop T)) w =
           Inr (sampled c g w p (LJ_VMST_LOOP c) Loop))
    \<and> (mcloop T = 0 \<longrightarrow>
         vmprofile_signal c g J (mcode T) w = Inr (sampled c g w p (LJ_VMST_HEAD c) Head))"
proof -
  have t: "0 < attributed_trace c g" "traceref J (attributed_trace c g) = Inr T"
    using assms(5,6) by (simp_all add: attributed_mcode)
  note sig = signal_attributed [OF assms(1-4) t]
  have no: "NOT (vmstate g) \<noteq> int (LJ_VMST_GC c)" "NOT (vmstate g) \<noteq> int (LJ_VMST_INTERP c)"
    using assms(5) by (simp_all add: attributed_mcode)
  have len: "uint (mcloop T) < uint (szmcode T)"
    using assms(7) by (simp add: word_less_def)
  have k0: "mcloop T \<noteq> 0 \<Longrightarrow> 0 < uint (mcloop T)"
    by (simp add: word_greater_zero_iff [symmetric] word_less_def)
  have "sample_class c g T (mcode T - 1) = (LJ_VMST_FFI c, Ffi)"
    using no by (simp add: sample_class_def mcposition_before)
  moreover have "sample_class c g T (mcode T + ucast (szmcode T)) = (LJ_VMST_FFI c, Ffi)"
    using no by (simp add: sample_class_def sint_ucast32)
  moreover have "sample_class c g T (mcode T + ucast (mcloop T) - 1) = (LJ_VMST_HEAD c, Head)"
    if "mcloop T \<noteq> 0"
    using no len k0 [OF that] by (simp add: sample_class_def sint_ucast32_pred)
  moreover have "sample_class c g T (mcode T + ucast (mcloop T)) = (LJ_VMST_LOOP c, Loop)"
    if "mcloop T \<noteq> 0"
    using no len that by (simp add: sample_class_def sint_ucast32)
  moreover have "sample_class c g T (mcode T) = (LJ_VMST_HEAD c, Head)"
    if "mcloop T = 0"
    using no len that by (simp add: sample_class_def mcposition_at)
  ultimately show ?thesis
    by (simp add: sig)
qed

text \<open>
  The four addresses of trace 1 (code at \<open>0x10000\<close>, 64 bytes, loop at 16) and the
  first address of trace 2 (no loop).
\<close>

theorem mcode_offset_classes_witness:
  "profile ex_w \<noteq> NULL \<and> mem ex_w (profile ex_w) = Some (zero_VMProfile ex_consts)
   \<and> consts_ok ex_consts \<and> layout_ok ex_consts (zero_VMProfile ex_consts)
   \<and> 0 < vmstate (ex_g 1) \<and> traceref ex_J (vmstate (ex_g 1)) = Inr ex_T
   \<and> mcloop ex_T < szmcode ex_T \<and> mcloop ex_T \<noteq> 0
   \<and> vmprofile_signal ex_consts (ex_g 1) ex_J 0xFFFF ex_w =
       Inr (sampled ex_consts (ex_g 1) ex_w (zero_VMProfile ex_consts) 10 Ffi)
   \<and> vmprofile_signal ex_consts (ex_g 1) ex_J 0x10040 ex_w =
       Inr (sampled ex_consts (ex_g 1) ex_w (zero_VMProfile ex_consts) 10 Ffi)
   \<and> vmprofile_signal ex_consts (ex_g 1) ex_J 0x1000F ex_w =
       Inr (sampled ex_consts (ex_g 1) ex_w (zero_VMProfile ex_consts) 7 Head)
   \<and> vmprofile_signal ex_consts (ex_g 1) ex_J 0x10010 ex_w =
       Inr (sampled ex_consts (ex_g 1) ex_w (zero_VMProfile ex_consts) 8 Loop)
   \<and> 0 < vmstate (ex_g 2) \<and> traceref ex_J (vmstate (ex_g 2)) = Inr ex_T0
   \<and> mcloop ex_T0 < szmcode ex_T0 \<and> mcloop ex_T0 = 0
   \<and> vmprofile_signal ex_consts (ex_g 2) ex_J 0x20000 ex_w =
       Inr (sampled ex_consts (ex_g 2) ex_w (zero_VMProfile ex_consts) 7 Head)"
proof -
  have h1: "0 < vmstate (ex_g 1)" "traceref ex_J (vmstate (ex_g 1)) = Inr ex_T"
    "mcloop ex_T < szmcode ex_T" "mcloop ex_T \<noteq> 0"
    by (simp_all add: ex_g_def ex_traceref) (simp_all add: ex_T_def)
  have h2: "0 < vmstate (ex_g 2)" "traceref ex_J (vmstate (ex_g 2)) = Inr ex_T0"
    "mcloop ex_T0 < szmcode ex_T0" "mcloop ex_T0 = 0"
    by (simp_all add: ex_g_def ex_traceref) (simp_all add: ex_T0_def)
  have c: "LJ_VMST_FFI ex_consts = 10" "LJ_VMST_HEAD ex_consts = 7" "LJ_VMST_LOOP ex_consts = 8"
    by (simp_all add: ex_consts_def)
  have a1: "mcode ex_T - 1 = 0xFFFF" "mcode ex_T + ucast (szmcode ex_T) = 0x10040"
    "mcode ex_T + ucast (mcloop ex_T) - 1 = 0x1000F" "mcode ex_T + ucast (mcloop ex_T) = 0x10010"
    by (simp_all add: ex_T_def)
  have a2: "mcode ex_T0 = 0x20000"
    by (simp add: ex_T0_def)
  show ?thesis
    using mcode_offset_classes [OF ex_w_active ex_consts_ok ex_layout_ok h1(1,2,3)]
      mcode_offset_classes [OF ex_w_active ex_consts_ok ex_layout_ok h2(1,2,3)]
      h1 h2 ex_w_active ex_consts_ok ex_layout_ok
    by (simp add: c a1 a2)
qed

text \<open>
  As the specification states it, the property fails for a loop offset of 0. Trace 2 has \<open>mcloop = 0\<close>
  and 64 bytes of code; a sample at its first instruction leaves the global
  \<^verbatim>\<open>LJ_VMST_LOOP\<close> counter and the \<open>loop\<close> counter of bucket 2 at 0 and bumps the
  \<^verbatim>\<open>LJ_VMST_HEAD\<close> counter and the \<open>head\<close> counter.
\<close>

theorem loop_offset_zero_counterexample:
  "mcloop ex_T0 = 0 \<and> 0 < szmcode ex_T0
   \<and> map_option (\<lambda>p. (vm p ! LJ_VMST_LOOP ex_consts, vm p ! LJ_VMST_HEAD ex_consts, trace p ! 2))
        (store_after (vmprofile_signal ex_consts (ex_g 2) ex_J (mcode ex_T0) ex_w) ex_addr)
      = Some (0, 1, \<lparr>head = 1, loop = 0, ffi = 0, gc = 0, interp = 0\<rparr>)"
proof -
  have t: "0 < attributed_trace ex_consts (ex_g 2)"
    "traceref ex_J (attributed_trace ex_consts (ex_g 2)) = Inr ex_T0"
    by (simp_all add: attributed_trace_def ex_g_def ex_traceref)
  have cl: "sample_class ex_consts (ex_g 2) ex_T0 (mcode ex_T0) = (7, Head)"
    by (simp add: sample_class_def ex_g_def ex_T0_def ex_consts_def)
  have b: "nat (trace_bucket ex_consts (attributed_trace ex_consts (ex_g 2))) = 2"
    by (simp add: attributed_trace_def ex_g_def trace_bucket_def ex_consts_def)
  have a: "ex_addr = profile ex_w"
    by (simp add: ex_w_def)
  have "store_after (vmprofile_signal ex_consts (ex_g 2) ex_J (mcode ex_T0) ex_w) ex_addr
      = Some (counted (zero_VMProfile ex_consts) 7 2 Head)"
    unfolding signal_attributed [OF ex_w_active ex_consts_ok ex_layout_ok t] cl a
      store_after_sampled b by simp
  moreover have "vm (counted (zero_VMProfile ex_consts) 7 2 Head) ! 8 = 0"
    "vm (counted (zero_VMProfile ex_consts) 7 2 Head) ! 7 = 1"
    by (simp_all add: counted_vm_nth zero_VMProfile_def ex_consts_def)
  moreover have "trace (counted (zero_VMProfile ex_consts) 7 2 Head) ! 2
      = \<lparr>head = 1, loop = 0, ffi = 0, gc = 0, interp = 0\<rparr>"
    by (simp add: counted_trace_nth zero_VMProfile_def ex_consts_def)
  ultimately show ?thesis
    by (simp add: ex_T0_def ex_consts_def)
qed

subsection \<open>The trace of a sample\<close>

text \<open>
  C2. The trace number of a sample is resolved in this order: a positive \<open>vmstate\<close>
  is the number; else, when the state is the collector's, it is \<open>gcvmstate\<close>; else,
  when the state is the interpreter's and \<open>lasttrace > 0\<close>, it is \<open>lasttrace\<close>; else
  there is none (0). When the number is not positive and the state indexes the array of
  global counters, the handler bumps the global counter of index \<^verbatim>\<open>~vmstate\<close> and
  changes nothing else; when it is positive (and the structure has the declared layout
  and the trace exists), the sample is counted in the bucket of that number.
\<close>

theorem attributed_trace_priority:
  "(0 < vmstate g \<longrightarrow> attributed_trace c g = vmstate g)
   \<and> (\<not> 0 < vmstate g \<and> NOT (vmstate g) = int (LJ_VMST_GC c) \<longrightarrow>
        attributed_trace c g = gcvmstate g)
   \<and> (\<not> 0 < vmstate g \<and> NOT (vmstate g) \<noteq> int (LJ_VMST_GC c)
        \<and> NOT (vmstate g) = int (LJ_VMST_INTERP c) \<and> 0 < lasttrace g \<longrightarrow>
        attributed_trace c g = lasttrace g)
   \<and> (\<not> 0 < vmstate g \<and> NOT (vmstate g) \<noteq> int (LJ_VMST_GC c)
        \<and> \<not> (NOT (vmstate g) = int (LJ_VMST_INTERP c) \<and> 0 < lasttrace g) \<longrightarrow>
        attributed_trace c g = 0)
   \<and> (profile w \<noteq> NULL \<and> mem w (profile w) = Some p \<and> \<not> 0 < attributed_trace c g
        \<and> 0 \<le> NOT (vmstate g) \<and> NOT (vmstate g) < int (length (vm p)) \<longrightarrow>
        vmprofile_signal c g J rip w =
          Inr (w\<lparr>mem := (mem w)(profile w \<mapsto>
            p\<lparr>vm := (vm p)[nat (NOT (vmstate g)) := vm p ! nat (NOT (vmstate g)) + 1]\<rparr>)\<rparr>))
   \<and> (profile w \<noteq> NULL \<and> mem w (profile w) = Some p \<and> consts_ok c \<and> layout_ok c p
        \<and> 0 < attributed_trace c g \<and> traceref J (attributed_trace c g) = Inr T \<longrightarrow>
        (\<exists>i s. vmprofile_signal c g J rip w = Inr (sampled c g w p i s)))"
proof -
  have "attributed_trace c g = vmstate g" if "0 < vmstate g"
    using that by (simp add: attributed_trace_def)
  moreover have "attributed_trace c g = gcvmstate g"
    if "\<not> 0 < vmstate g" "NOT (vmstate g) = int (LJ_VMST_GC c)"
    using that by (simp add: attributed_trace_def)
  moreover have "attributed_trace c g = lasttrace g"
    if "\<not> 0 < vmstate g" "NOT (vmstate g) \<noteq> int (LJ_VMST_GC c)"
      "NOT (vmstate g) = int (LJ_VMST_INTERP c)" "0 < lasttrace g"
    using that by (simp add: attributed_trace_def)
  moreover have "attributed_trace c g = 0"
    if "\<not> 0 < vmstate g" "NOT (vmstate g) \<noteq> int (LJ_VMST_GC c)"
      "\<not> (NOT (vmstate g) = int (LJ_VMST_INTERP c) \<and> 0 < lasttrace g)"
    using that by (simp add: attributed_trace_def)
  moreover note signal_unattributed [of w p c g J rip] signal_attributed [of w p c g J T rip]
  ultimately show ?thesis
    by blast
qed

text \<open>
  One global state for each of the four cases, and the run of the handler in the plain
  interpreter.
\<close>

theorem attributed_trace_priority_witness:
  "0 < vmstate (ex_g 1) \<and> attributed_trace ex_consts (ex_g 1) = 1
   \<and> \<not> 0 < vmstate ex_g_gc \<and> NOT (vmstate ex_g_gc) = int (LJ_VMST_GC ex_consts)
   \<and> attributed_trace ex_consts ex_g_gc = 2
   \<and> \<not> 0 < vmstate ex_g_interp \<and> NOT (vmstate ex_g_interp) \<noteq> int (LJ_VMST_GC ex_consts)
   \<and> NOT (vmstate ex_g_interp) = int (LJ_VMST_INTERP ex_consts) \<and> 0 < lasttrace ex_g_interp
   \<and> attributed_trace ex_consts ex_g_interp = 1
   \<and> \<not> 0 < vmstate ex_g_plain \<and> NOT (vmstate ex_g_plain) \<noteq> int (LJ_VMST_GC ex_consts)
   \<and> \<not> 0 < lasttrace ex_g_plain
   \<and> attributed_trace ex_consts ex_g_plain = 0
   \<and> profile ex_w \<noteq> NULL \<and> mem ex_w (profile ex_w) = Some (zero_VMProfile ex_consts)
   \<and> 0 \<le> NOT (vmstate ex_g_plain)
   \<and> NOT (vmstate ex_g_plain) < int (length (vm (zero_VMProfile ex_consts)))
   \<and> vmprofile_signal ex_consts ex_g_plain ex_J 0 ex_w =
       Inr (ex_w\<lparr>mem := (mem ex_w)(profile ex_w \<mapsto>
         (zero_VMProfile ex_consts)\<lparr>vm := (vm (zero_VMProfile ex_consts))[0 := 1]\<rparr>)\<rparr>)"
proof -
  have v: "vmstate (ex_g 1) = 1" "vmstate ex_g_gc = - 3" "vmstate ex_g_interp = - 1"
    "vmstate ex_g_plain = - 1" "gcvmstate ex_g_gc = 2" "lasttrace ex_g_interp = 1"
    "lasttrace ex_g_plain = 0"
    by (simp_all add: ex_g_def ex_g_gc_def ex_g_interp_def ex_g_plain_def)
  have k: "LJ_VMST_GC ex_consts = 2" "LJ_VMST_INTERP ex_consts = 0"
    by (simp_all add: ex_consts_def)
  have z: "vm (zero_VMProfile ex_consts) ! 0 = 0" "length (vm (zero_VMProfile ex_consts)) = 11"
    by (simp_all add: zero_VMProfile_def ex_consts_def)
  show ?thesis
    using attributed_trace_priority [of "ex_g 1" ex_consts]
      attributed_trace_priority [of ex_g_gc ex_consts]
      attributed_trace_priority [of ex_g_interp ex_consts]
      attributed_trace_priority [of ex_g_plain ex_consts ex_w "zero_VMProfile ex_consts" ex_J 0]
      ex_w_active
    by (simp add: v k z)
qed

subsection \<open>The two counters of a sample\<close>

text \<open>
  C3. A sample that belongs to a trace, taken with an active structure of the declared
  layout, is counted in exactly one global counter \<open>i\<close> and in exactly one counter \<open>s\<close>
  of one trace bucket, every other counter keeping its value, and \<open>(i, s)\<close> is one of
  the pairs (\<^verbatim>\<open>LJ_VMST_JGC\<close>, gc), (\<^verbatim>\<open>LJ_VMST_INTERP\<close>, interp),
  (\<^verbatim>\<open>LJ_VMST_FFI\<close>, ffi), (\<^verbatim>\<open>LJ_VMST_LOOP\<close>, loop), (\<^verbatim>\<open>LJ_VMST_HEAD\<close>, head).
  When the interpreter was entered after a trace, the global counter is the
  interpreter's and none of the four others.
\<close>

theorem sample_counts_matching_pair:
  assumes "profile w \<noteq> NULL" and "mem w (profile w) = Some p"
    and "consts_ok c" and "layout_ok c p"
    and "0 < attributed_trace c g" and "traceref J (attributed_trace c g) = Inr T"
  shows "\<exists>i s. (i, s) \<in> set (matching c)
    \<and> vmprofile_signal c g J rip w = Inr (sampled c g w p i s)
    \<and> (NOT (vmstate g) = int (LJ_VMST_INTERP c) \<longrightarrow>
         i = LJ_VMST_INTERP c \<and> s = Interp
         \<and> i \<notin> {LJ_VMST_JGC c, LJ_VMST_FFI c, LJ_VMST_LOOP c, LJ_VMST_HEAD c})
    \<and> length (vm (counted p i (nat (trace_bucket c (attributed_trace c g))) s)) = length (vm p)
    \<and> length (trace (counted p i (nat (trace_bucket c (attributed_trace c g))) s)) =
        length (trace p)
    \<and> (\<forall>j < length (vm p).
         vm (counted p i (nat (trace_bucket c (attributed_trace c g))) s) ! j =
           (if j = i then vm p ! j + 1 else vm p ! j))
    \<and> (\<forall>k < length (trace p). \<forall>s'.
         sub_get s' (trace (counted p i (nat (trace_bucket c (attributed_trace c g))) s) ! k) =
           (if k = nat (trace_bucket c (attributed_trace c g)) \<and> s' = s
            then sub_get s' (trace p ! k) + 1 else sub_get s' (trace p ! k)))
    \<and> i < length (vm p) \<and> nat (trace_bucket c (attributed_trace c g)) < length (trace p)"
proof -
  let ?i = "fst (sample_class c g T rip)" and ?s = "snd (sample_class c g T rip)"
  let ?b = "nat (trace_bucket c (attributed_trace c g))"
  have m: "(?i, ?s) \<in> set (matching c)"
    using sample_class_matching [of c g T rip] by simp
  have sig: "vmprofile_signal c g J rip w = Inr (sampled c g w p ?i ?s)"
    by (rule signal_attributed [OF assms])
  have int: "?i = LJ_VMST_INTERP c \<and> ?s = Interp
      \<and> ?i \<notin> {LJ_VMST_JGC c, LJ_VMST_FFI c, LJ_VMST_LOOP c, LJ_VMST_HEAD c}"
    if "NOT (vmstate g) = int (LJ_VMST_INTERP c)"
    using sample_class_interp [OF assms(3) that, of T rip] assms(3)
    by (auto simp: consts_ok_def)
  have len: "length (vm (counted p ?i ?b ?s)) = length (vm p)"
    "length (trace (counted p ?i ?b ?s)) = length (trace p)"
    by (simp_all add: counted_lengths)
  have v: "\<forall>j < length (vm p).
      vm (counted p ?i ?b ?s) ! j = (if j = ?i then vm p ! j + 1 else vm p ! j)"
    by (simp add: counted_vm_nth)
  have t: "\<forall>k < length (trace p). \<forall>s'. sub_get s' (trace (counted p ?i ?b ?s) ! k) =
      (if k = ?b \<and> s' = ?s then sub_get s' (trace p ! k) + 1 else sub_get s' (trace p ! k))"
    by (simp add: counted_trace_nth sub_get_incr)
  have r: "?i < length (vm p)" "?b < length (trace p)"
    using sample_class_in_range [OF assms(3,4)] bucket_in_range [OF assms(3,4,5)] by auto
  show ?thesis
    using m sig int len v t r by blast
qed

text \<open>The interpreter entered after trace 1.\<close>

theorem sample_counts_matching_pair_witness:
  "profile ex_w \<noteq> NULL \<and> mem ex_w (profile ex_w) = Some (zero_VMProfile ex_consts)
   \<and> consts_ok ex_consts \<and> layout_ok ex_consts (zero_VMProfile ex_consts)
   \<and> 0 < attributed_trace ex_consts ex_g_interp
   \<and> traceref ex_J (attributed_trace ex_consts ex_g_interp) = Inr ex_T
   \<and> NOT (vmstate ex_g_interp) = int (LJ_VMST_INTERP ex_consts)
   \<and> vmprofile_signal ex_consts ex_g_interp ex_J 0x10010 ex_w =
       Inr (sampled ex_consts ex_g_interp ex_w (zero_VMProfile ex_consts)
         (LJ_VMST_INTERP ex_consts) Interp)"
proof -
  have t: "0 < attributed_trace ex_consts ex_g_interp"
    "traceref ex_J (attributed_trace ex_consts ex_g_interp) = Inr ex_T"
    by (simp_all add: attributed_trace_def ex_g_interp_def ex_consts_def ex_traceref)
  have n: "NOT (vmstate ex_g_interp) = int (LJ_VMST_INTERP ex_consts)"
    by (simp add: ex_g_interp_def ex_consts_def)
  show ?thesis
    using sample_counts_matching_pair [OF ex_w_active ex_consts_ok ex_layout_ok t, of "0x10010"]
      t n ex_w_active ex_consts_ok ex_layout_ok
    by auto
qed

subsection \<open>The bucket of a trace\<close>

text \<open>
  C4. For an attributed trace number \<open>t\<close> (the handler only computes a bucket when
  \<open>t > 0\<close>), the bucket is 0 exactly when \<open>t\<close> is greater than
  \<^verbatim>\<open>LJ_VMPROFILE_TRACE_MAX\<close>, and is \<open>t\<close> otherwise; the bound itself keeps its own
  bucket.
\<close>

theorem trace_bucket_overflow:
  assumes "0 < t"
  shows "(trace_bucket c t = 0 \<longleftrightarrow> LJ_VMPROFILE_TRACE_MAX c < t)
    \<and> (\<not> LJ_VMPROFILE_TRACE_MAX c < t \<longrightarrow> trace_bucket c t = t)
    \<and> trace_bucket c (LJ_VMPROFILE_TRACE_MAX c) = LJ_VMPROFILE_TRACE_MAX c"
  using assms by (simp add: trace_bucket_def)

theorem trace_bucket_overflow_witness:
  "(0::int) < 5000 \<and> trace_bucket ex_consts 5000 = 0 \<and> trace_bucket ex_consts 4096 = 4096"
  using trace_bucket_overflow [of 5000 ex_consts] by (simp add: ex_consts_def)

subsection \<open>Stopping\<close>

text \<open>
  C5, what the code does. A session is started in a process that had a handler of its
  own for \<^verbatim>\<open>SIGPROF\<close>, then stopped. The start saves that handler and installs the
  profiler's, with a timer of 1 ms. The stop sets both fields of the timer to zero, but
  its call \<^verbatim>\<open>sigaction(SIGPROF, NULL, &state.oldsa)\<close> passes no new action: the
  profiler's handler stays in force, and the saved action is overwritten with it.
\<close>

theorem stop_keeps_profiler_handler:
  "(case luaJIT_vmprofile_start 0x40000000 ex_pstate ex_kernel of (st1, k1) \<Rightarrow>
      case luaJIT_vmprofile_stop st1 k1 of (st2, k2) \<Rightarrow>
        sa_sigaction (sigprof ex_kernel) = other_handler 1
        \<and> sa_sigaction (oldsa st1) = other_handler 1
        \<and> sa_sigaction (sigprof k1) = vmprofile_signal_fn
        \<and> itimer_prof k1 =
            \<lparr>it_interval = \<lparr>tv_sec = 0, tv_usec = 1000\<rparr>, it_value = \<lparr>tv_sec = 0, tv_usec = 1000\<rparr>\<rparr>
        \<and> itimer_prof k2 =
            \<lparr>it_interval = \<lparr>tv_sec = 0, tv_usec = 0\<rparr>, it_value = \<lparr>tv_sec = 0, tv_usec = 0\<rparr>\<rparr>
        \<and> sa_sigaction (sigprof k2) = vmprofile_signal_fn
        \<and> sa_sigaction (oldsa st2) = vmprofile_signal_fn)"
  by (simp add: luaJIT_vmprofile_start_def luaJIT_vmprofile_stop_def start_timer_effect
      stop_timer_effect ex_kernel_def ex_pstate_def c_div_def c_mod_def)

subsection \<open>Opening a file of counters\<close>

text \<open>
  C6, as the code has it. When \<^verbatim>\<open>open\<close>, \<^verbatim>\<open>ftruncate\<close> or \<^verbatim>\<open>mmap\<close> fails, the call
  yields nil and leaves the process as it was: nothing is mapped and no descriptor stays
  open. When the three succeed, it yields the address of a mapping of
  \<^verbatim>\<open>sizeof(VMProfile)\<close> bytes in which every field is zero, the magic value and the
  version included: the header is written by \<^verbatim>\<open>vmprofile_set_profile\<close>, not here.
  Nothing else of the process changes.
\<close>

theorem open_zeroed_or_nil:
  "(open_ret env = - 1 \<or> ftruncate_ret env = - 1 \<or> mmap_ret env = MAP_FAILED \<longrightarrow>
      luaJIT_vmprofile_open c env w = (nilV, w))
   \<and> (open_ret env \<noteq> - 1 \<and> ftruncate_ret env \<noteq> - 1 \<and> mmap_ret env \<noteq> MAP_FAILED \<longrightarrow>
      (\<exists>w'. luaJIT_vmprofile_open c env w = (lightudV (mmap_ret env), w')
         \<and> maplen w' (mmap_ret env) = Some (vmprofile_get_profile_size c)
         \<and> mem w' (mmap_ret env) = Some (zero_VMProfile c)
         \<and> magic (zero_VMProfile c) = 0 \<and> major (zero_VMProfile c) = 0
         \<and> minor (zero_VMProfile c) = 0
         \<and> list_all (\<lambda>x. x = 0) (vm (zero_VMProfile c))
         \<and> list_all (\<lambda>n. n = \<lparr>head = 0, loop = 0, ffi = 0, gc = 0, interp = 0\<rparr>)
              (trace (zero_VMProfile c))
         \<and> (\<forall>a. a \<noteq> mmap_ret env \<longrightarrow> mem w' a = mem w a \<and> maplen w' a = maplen w a)
         \<and> profile w' = profile w \<and> fds w' = fds w \<and> stdout w' = stdout w))"
proof -
  have "list_all (\<lambda>x. x = 0) (vm (zero_VMProfile c))"
    "list_all (\<lambda>n. n = \<lparr>head = 0, loop = 0, ffi = 0, gc = 0, interp = 0\<rparr>)
      (trace (zero_VMProfile c))"
    by (simp_all add: zero_VMProfile_def list_all_iff)
  moreover have "magic (zero_VMProfile c) = 0" "major (zero_VMProfile c) = 0"
    "minor (zero_VMProfile c) = 0"
    by (simp_all add: zero_VMProfile_def)
  ultimately show ?thesis
    using open_fails [of env c w] open_succeeds [of env c w]
    by (simp add: vmprofile_get_profile_size_def)
qed

text \<open>Three calls that succeed, and the same with a failing \<^verbatim>\<open>ftruncate\<close>.\<close>

theorem open_zeroed_or_nil_witness:
  "open_ret ex_env \<noteq> - 1 \<and> ftruncate_ret ex_env \<noteq> - 1 \<and> mmap_ret ex_env \<noteq> MAP_FAILED
   \<and> fst (luaJIT_vmprofile_open ex_consts ex_env ex_w0) = lightudV ex_addr
   \<and> ftruncate_ret (ex_env\<lparr>ftruncate_ret := - 1\<rparr>) = - 1
   \<and> luaJIT_vmprofile_open ex_consts (ex_env\<lparr>ftruncate_ret := - 1\<rparr>) ex_w0 = (nilV, ex_w0)"
  using open_zeroed_or_nil [of ex_env ex_consts ex_w0]
    open_zeroed_or_nil [of "ex_env\<lparr>ftruncate_ret := - 1\<rparr>" ex_consts ex_w0] ex_env_succeeds
  by auto

text \<open>
  As the specification states it, the property fails on the stamp: after a successful
  call the magic value of the mapped structure is 0, not \<open>0x1d50f007\<close>, and the major
  version is 0, not 3.
\<close>

theorem open_not_stamped_counterexample:
  "fst (luaJIT_vmprofile_open ex_consts ex_env ex_w0) = lightudV ex_addr
   \<and> map_option magic (mem (snd (luaJIT_vmprofile_open ex_consts ex_env ex_w0)) ex_addr) = Some 0
   \<and> map_option major (mem (snd (luaJIT_vmprofile_open ex_consts ex_env ex_w0)) ex_addr) = Some 0
   \<and> (0 :: 32 word) \<noteq> 0x1d50f007 \<and> (0 :: 8 word) \<noteq> 3"
  unfolding open_succeeds [OF ex_env_succeeds(1,2,3)] ex_env_succeeds(4)
  by (simp add: zero_VMProfile_def)

subsection \<open>What the handler does besides counting\<close>

text \<open>
  C7, what the code does. A sample taken in the loop of trace 1, with nothing written to
  the standard output before: the handler counts it and, on line 80, calls
  \<^verbatim>\<open>printf\<close> with the trace number 1 and the flag 0.
\<close>

theorem handler_calls_printf:
  "vmprofile_signal ex_consts (ex_g 1) ex_J 0x10010 ex_w =
      Inr (sampled ex_consts (ex_g 1) ex_w (zero_VMProfile ex_consts) 8 Loop)
   \<and> stdout ex_w = []
   \<and> stdout (sampled ex_consts (ex_g 1) ex_w (zero_VMProfile ex_consts) 8 Loop) =
       [Printf (''trace %d interp %d'' @ [CHR 0x0A]) [1, 0]]"
proof -
  have t: "0 < attributed_trace ex_consts (ex_g 1)"
    "traceref ex_J (attributed_trace ex_consts (ex_g 1)) = Inr ex_T"
    by (simp_all add: attributed_trace_def ex_g_def ex_traceref)
  have cl: "sample_class ex_consts (ex_g 1) ex_T 0x10010 = (8, Loop)"
    by (simp add: sample_class_def ex_g_def ex_T_def ex_consts_def)
  have "vmprofile_signal ex_consts (ex_g 1) ex_J 0x10010 ex_w =
      Inr (sampled ex_consts (ex_g 1) ex_w (zero_VMProfile ex_consts) 8 Loop)"
    unfolding signal_attributed [OF ex_w_active ex_consts_ok ex_layout_ok t] cl by simp
  moreover have "stdout (sampled ex_consts (ex_g 1) ex_w (zero_VMProfile ex_consts) 8 Loop) =
       [Printf (''trace %d interp %d'' @ [CHR 0x0A]) [1, 0]]"
    by (simp add: sampled_def debug_printf_def attributed_trace_def ex_g_def ex_w_def
        ex_consts_def)
  ultimately show ?thesis
    by (simp add: ex_w_def)
qed

subsection \<open>Counters only grow, up to the wrap\<close>

text \<open>
  C8, as the code has it. After a run of the handler that does not fault, with an active
  structure: the arrays keep their sizes, every counter either keeps its value or is one
  more modulo \<open>2 ^ 64\<close>, and every counter that was below \<open>2 ^ 64 - 1\<close> is not
  smaller than before. (A counter at \<open>2 ^ 64 - 1\<close> that the run touches becomes 0.)
\<close>

theorem counters_step:
  assumes "vmprofile_signal c g J rip w = Inr w'"
    and "profile w \<noteq> NULL" and "mem w (profile w) = Some p"
  shows "\<exists>p'. mem w' (profile w) = Some p'
    \<and> length (vm p') = length (vm p) \<and> length (trace p') = length (trace p)
    \<and> (\<forall>j < length (vm p).
          (vm p' ! j = vm p ! j \<or> vm p' ! j = vm p ! j + 1)
        \<and> (unat (vm p ! j) < 2 ^ 64 - 1 \<longrightarrow> vm p ! j \<le> vm p' ! j))
    \<and> (\<forall>k < length (trace p). \<forall>s.
          (sub_get s (trace p' ! k) = sub_get s (trace p ! k)
            \<or> sub_get s (trace p' ! k) = sub_get s (trace p ! k) + 1)
        \<and> (unat (sub_get s (trace p ! k)) < 2 ^ 64 - 1 \<longrightarrow>
             sub_get s (trace p ! k) \<le> sub_get s (trace p' ! k)))"
proof -
  from signal_Inr_cases [OF assms] consider
    (global) i where "i < length (vm p)"
      "mem w' (profile w) = Some (p\<lparr>vm := (vm p)[i := vm p ! i + 1]\<rparr>)"
  | (both) i b s where "i < length (vm p)" "b < length (trace p)"
      "mem w' (profile w) = Some (counted p i b s)"
    by blast
  then show ?thesis
  proof cases
    case global
    then show ?thesis
      by (simp add: nth_list_update word64_incr_le)
  next
    case both
    then show ?thesis
      by (simp add: counted_vm_nth counted_trace_nth sub_get_incr word64_incr_le
          counted_lengths)
  qed
qed

text \<open>A sample of the plain interpreter on zeroed counters.\<close>

theorem counters_step_witness:
  "vmprofile_signal ex_consts ex_g_plain ex_J 0 ex_w =
      Inr (ex_w\<lparr>mem := (mem ex_w)(profile ex_w \<mapsto>
         (zero_VMProfile ex_consts)\<lparr>vm := (vm (zero_VMProfile ex_consts))[0 := 1]\<rparr>)\<rparr>)
   \<and> profile ex_w \<noteq> NULL \<and> mem ex_w (profile ex_w) = Some (zero_VMProfile ex_consts)
   \<and> (\<exists>p'. mem (ex_w\<lparr>mem := (mem ex_w)(profile ex_w \<mapsto>
         (zero_VMProfile ex_consts)\<lparr>vm := (vm (zero_VMProfile ex_consts))[0 := 1]\<rparr>)\<rparr>)
           (profile ex_w) = Some p'
       \<and> length (vm p') = length (vm (zero_VMProfile ex_consts))
       \<and> vm (zero_VMProfile ex_consts) ! 0 \<le> vm p' ! 0)"
proof -
  have n: "\<not> 0 < attributed_trace ex_consts ex_g_plain" "0 \<le> NOT (vmstate ex_g_plain)"
    "NOT (vmstate ex_g_plain) < int (length (vm (zero_VMProfile ex_consts)))"
    by (simp_all add: attributed_trace_def ex_g_plain_def ex_consts_def zero_VMProfile_def)
  have z: "nat (NOT (vmstate ex_g_plain)) = 0" "vm (zero_VMProfile ex_consts) ! 0 = 0"
    by (simp_all add: ex_g_plain_def zero_VMProfile_def ex_consts_def)
  have run: "vmprofile_signal ex_consts ex_g_plain ex_J 0 ex_w =
      Inr (ex_w\<lparr>mem := (mem ex_w)(profile ex_w \<mapsto>
         (zero_VMProfile ex_consts)\<lparr>vm := (vm (zero_VMProfile ex_consts))[0 := 1]\<rparr>)\<rparr>)"
    using signal_unattributed [OF ex_w_active n, of ex_J 0] by (simp add: z)
  show ?thesis
    using counters_step [OF run ex_w_active] run ex_w_active by (simp add: z)
qed

text \<open>
  As the specification states it, the property fails at the greatest value of a
  counter: with the interpreter's global counter at \<open>2 ^ 64 - 1\<close>, a sample of the
  plain interpreter leaves it at 0.
\<close>

theorem counter_wraps_counterexample:
  "map_option (\<lambda>p. vm p ! 0) (mem ex_w_max ex_addr) = Some 0xFFFFFFFFFFFFFFFF
   \<and> map_option (\<lambda>p. vm p ! 0)
        (store_after (vmprofile_signal ex_consts ex_g_plain ex_J 0 ex_w_max) ex_addr) = Some 0
   \<and> \<not> (0xFFFFFFFFFFFFFFFF :: 64 word) \<le> 0"
proof -
  let ?p = "(zero_VMProfile ex_consts)\<lparr>vm := (replicate 11 0)[0 := 0xFFFFFFFFFFFFFFFF]\<rparr>"
  have a: "profile ex_w_max \<noteq> NULL" "mem ex_w_max (profile ex_w_max) = Some ?p"
    "profile ex_w_max = ex_addr"
    by (simp_all add: ex_w_max_def ex_w_def ex_addr_def NULL_def)
  have n: "\<not> 0 < attributed_trace ex_consts ex_g_plain" "0 \<le> NOT (vmstate ex_g_plain)"
    "NOT (vmstate ex_g_plain) < int (length (vm ?p))"
    by (simp_all add: attributed_trace_def ex_g_plain_def ex_consts_def)
  have z: "nat (NOT (vmstate ex_g_plain)) = 0"
    by (simp add: ex_g_plain_def)
  have "store_after (vmprofile_signal ex_consts ex_g_plain ex_J 0 ex_w_max) ex_addr
      = Some (?p\<lparr>vm := (vm ?p)[0 := vm ?p ! 0 + 1]\<rparr>)"
    unfolding signal_unattributed [OF a(1,2) n, of ex_J 0] z
    by (simp add: store_after_def a(3))
  then show ?thesis
    using a(2) by (simp add: a(3))
qed

subsection \<open>No active structure\<close>

text \<open>
  C9. When the pointer \<open>profile\<close> is null, the handler returns the process as it is:
  no counter, no memory and no output changes.
\<close>

theorem null_profile_drops_sample:
  assumes "profile w = NULL"
  shows "vmprofile_signal c g J rip w = Inr w"
  using assms by (simp add: vmprofile_signal_def)

theorem null_profile_drops_sample_witness:
  "profile (ex_w\<lparr>profile := NULL\<rparr>) = NULL
   \<and> vmprofile_signal ex_consts (ex_g 1) ex_J 0x10010 (ex_w\<lparr>profile := NULL\<rparr>) =
       Inr (ex_w\<lparr>profile := NULL\<rparr>)"
  using null_profile_drops_sample [of "ex_w\<lparr>profile := NULL\<rparr>" ex_consts "ex_g 1" ex_J "0x10010"]
  by simp

subsection \<open>Installing a structure\<close>

text \<open>
  C10. \<^verbatim>\<open>vmprofile_set_profile\<close> on mapped memory makes it the active structure and
  writes the magic value \<open>0x1d50f007\<close> and the version 3.0 over whatever the header
  held; the global counters and the trace counters keep their values, and so does
  everything else in the process.
\<close>

theorem set_profile_stamps_header:
  assumes "mem w counters = Some p"
  shows "\<exists>w' p'. vmprofile_set_profile counters w = Inr w'
    \<and> profile w' = counters \<and> mem w' counters = Some p'
    \<and> magic p' = 0x1d50f007 \<and> major p' = 3 \<and> minor p' = 0
    \<and> vm p' = vm p \<and> trace p' = trace p
    \<and> (\<forall>a. a \<noteq> counters \<longrightarrow> mem w' a = mem w a)
    \<and> maplen w' = maplen w \<and> fds w' = fds w \<and> stdout w' = stdout w"
  using assms by (simp add: vmprofile_set_profile_def Let_def)

text \<open>A structure with another header and counters that are not zero.\<close>

theorem set_profile_stamps_header_witness:
  "mem (ex_w\<lparr>mem := [ex_addr \<mapsto> ex_used]\<rparr>) ex_addr = Some ex_used
   \<and> vmprofile_set_profile ex_addr (ex_w\<lparr>mem := [ex_addr \<mapsto> ex_used]\<rparr>) =
       Inr (ex_w\<lparr>mem := [ex_addr \<mapsto>
         \<lparr>magic = 0x1d50f007, major = 3, minor = 0, vm = [5, 0, 17],
          trace = [\<lparr>head = 1, loop = 2, ffi = 3, gc = 4, interp = 5\<rparr>]\<rparr>]\<rparr>)"
proof -
  have m: "mem (ex_w\<lparr>mem := [ex_addr \<mapsto> ex_used]\<rparr>) ex_addr = Some ex_used"
    by simp
  from set_profile_stamps_header [OF m] obtain w' where
    r: "vmprofile_set_profile ex_addr (ex_w\<lparr>mem := [ex_addr \<mapsto> ex_used]\<rparr>) = Inr w'"
    by blast
  then show ?thesis
    by (simp add: vmprofile_set_profile_def Let_def ex_used_def ex_w_def)
qed

end
